theory Spec2Isabelle
  imports Main "HOL-Library.Word" "HOL-Library.Sublist"
begin

section \<open>Strings, runes and the standard-library functions the handler calls\<close>

text \<open>
  The two command options reach the handler as Go strings decoded from JSON, hence as
  valid UTF-8. A string is modelled as the list of its Unicode code points (runes), which
  is what both \<^verbatim>\<open>regexp\<close> and \<^verbatim>\<open>strings.ToLower\<close> iterate over.
  A literal of the source is written \<open>str ''...''\<close>.
\<close>

type_synonym rune = nat
type_synonym gostring = "rune list"
type_synonym error = gostring

definition str :: "string \<Rightarrow> gostring" where
  "str s = map of_char s"

subsection \<open>regexp: the two patterns of bot.go\<close>

text \<open>
  Both patterns of the source have the shape \<^verbatim>\<open>^[class]+$\<close>. Go's \<^verbatim>\<open>$\<close> (no
  multi-line flag) matches at the end of the text only, so \<^verbatim>\<open>MatchString\<close> holds
  exactly when the whole string is a non-empty run of runes of the class. The bounded
  repetition \<^verbatim>\<open>^[class]{m,n}$\<close> is included for the pattern the specification writes.
  A class is a list of inclusive ranges.
\<close>

type_synonym charclass = "(char \<times> char) list"

definition in_class :: "charclass \<Rightarrow> rune \<Rightarrow> bool" where
  "in_class cls r = list_ex (\<lambda>(lo, hi). of_char lo \<le> r \<and> r \<le> of_char hi) cls"

datatype regexp =
    Anchored_Plus charclass
  | Anchored_Repeat charclass nat nat

fun MatchString :: "regexp \<Rightarrow> gostring \<Rightarrow> bool" where
  "MatchString (Anchored_Plus cls) s = (s \<noteq> [] \<and> list_all (in_class cls) s)"
| "MatchString (Anchored_Repeat cls m n) s =
     (m \<le> length s \<and> length s \<le> n \<and> list_all (in_class cls) s)"

definition publicIDRegex :: regexp where
  \<comment> \<open>\<^verbatim>\<open>regexp.MustCompile(`^[a-f0-9]+$`)\<close>\<close>
  "publicIDRegex = Anchored_Plus [(CHR ''a'', CHR ''f''), (CHR ''0'', CHR ''9'')]"

definition vanityRegex :: regexp where
  \<comment> \<open>\<^verbatim>\<open>regexp.MustCompile(`^[a-zA-Z0-9]+$`)\<close>\<close>
  "vanityRegex =
     Anchored_Plus [(CHR ''a'', CHR ''z''), (CHR ''A'', CHR ''Z''), (CHR ''0'', CHR ''9'')]"

definition spec_requesterID_pattern :: regexp where
  \<comment> \<open>the pattern the specification writes for the public user id: \<^verbatim>\<open>^[0-9a-f]+$\<close>\<close>
  "spec_requesterID_pattern = Anchored_Plus [(CHR ''0'', CHR ''9''), (CHR ''a'', CHR ''f'')]"

definition spec_alias_pattern :: regexp where
  \<comment> \<open>the pattern the specification writes for the alias: \<^verbatim>\<open>^[0-9a-zA-Z]{1,32}$\<close>\<close>
  "spec_alias_pattern =
     Anchored_Repeat [(CHR ''0'', CHR ''9''), (CHR ''a'', CHR ''z''), (CHR ''A'', CHR ''Z'')] 1 32"

subsection \<open>strings.ToLower\<close>

text \<open>
  \<^verbatim>\<open>strings.ToLower\<close> has a fast path for strings of ASCII bytes only and otherwise maps
  \<^verbatim>\<open>unicode.ToLower\<close> over the runes. \<^verbatim>\<open>unicode.ToLower\<close> treats ASCII itself and
  consults the Unicode case tables above \<^verbatim>\<open>MaxASCII\<close>; the tables are the parameter
  \<open>tbl\<close>, so every result below holds whatever they contain.
\<close>

definition isUpperASCII :: "rune \<Rightarrow> bool" where
  "isUpperASCII c = (of_char CHR ''A'' \<le> c \<and> c \<le> of_char CHR ''Z'')"

definition unicode_ToLower :: "(rune \<Rightarrow> rune) \<Rightarrow> rune \<Rightarrow> rune" where
  "unicode_ToLower tbl r =
     (if r \<le> 127 then (if isUpperASCII r then r + (of_char CHR ''a'' - of_char CHR ''A'') else r)
      else tbl r)"

definition strings_ToLower :: "(rune \<Rightarrow> rune) \<Rightarrow> gostring \<Rightarrow> gostring" where
  "strings_ToLower tbl s =
     (if list_all (\<lambda>c. c < 128) s then
        (if \<not> list_ex isUpperASCII s then s
         else map (\<lambda>c. if isUpperASCII c then c + (of_char CHR ''a'' - of_char CHR ''A'') else c) s)
      else map (unicode_ToLower tbl) s)"

subsection \<open>Snowflake identifiers and their decimal text\<close>

text \<open>
  \<^verbatim>\<open>snowflake.ID\<close> is a \<^verbatim>\<open>uint64\<close>. Both \<^verbatim>\<open>%d\<close> and its \<^verbatim>\<open>String\<close> method (used by
  \<^verbatim>\<open>%s\<close>) print it in base 10, as \<^verbatim>\<open>strconv.FormatUint(uint64(id), 10)\<close>.
\<close>

type_synonym snowflake = "64 word"

fun FormatUint :: "nat \<Rightarrow> gostring" where
  "FormatUint n =
     (if n < 10 then [of_char CHR ''0'' + n]
      else FormatUint (n div 10) @ [of_char CHR ''0'' + n mod 10])"

declare FormatUint.simps [simp del]

definition ID_String :: "snowflake \<Rightarrow> gostring" where
  "ID_String i = FormatUint (unat i)"

section \<open>The data of one command invocation\<close>

record Result_struct =
  ID :: snowflake

record MetadataResponse =
  Result :: Result_struct

datatype http_method = MethodGet | MethodPut

text \<open>
  A request as the handler builds it. The body of the value request is a multipart form;
  it is kept as the list of the fields written to it, in order (the boundary that
  separates them appears in the \<^verbatim>\<open>Content-Type\<close> header).
\<close>

record Request =
  Method :: http_method
  URL :: gostring
  Header :: "(gostring \<times> gostring) list"
  Body :: "(gostring \<times> gostring) list option"

text \<open>
  A response as the handler reads it: the status code, and what
  \<^verbatim>\<open>json.NewDecoder(Body).Decode(&response)\<close> yields for its body.
\<close>

record Response =
  StatusCode :: int
  Decode :: "error + MetadataResponse"

datatype MessageFlags = MessageFlagsNone | MessageFlagEphemeral

record MessageCreate =
  Content :: gostring
  Flags :: MessageFlags

text \<open>The slash-command interaction: the two string options and the invoking user.\<close>

record Interaction =
  option_sb_user_id :: gostring
  option_vanity :: gostring
  User_ID :: snowflake

text \<open>
  What is outside the handler. \<open>'w\<close> is the state of the world the HTTP client talks to;
  \<open>client_Do\<close> sends a request in a state and returns the response or a transport
  error, and the next state. \<open>url_Parse\<close> is the only way \<^verbatim>\<open>http.NewRequest\<close> can fail
  for the constant methods the handler uses.
\<close>

record 'w Runtime =
  cfApiToken :: gostring
  unicode_tables :: "rune \<Rightarrow> rune"
  url_Parse :: "gostring \<Rightarrow> error option"
  multipart_boundary :: gostring
  client_Do :: "Request \<Rightarrow> 'w \<Rightarrow> (error + Response) \<times> 'w"

datatype log_level = LevelWarn | LevelError

datatype log_arg = ArgString gostring | ArgInt int | ArgError error

text \<open>
  Everything the handler does that is visible outside it, in the order it does it.
  A log call is recorded with its level and arguments (for the \<^verbatim>\<open>...f\<close> variants the
  first argument is the format).
\<close>

datatype action =
    CreateMessage MessageCreate
  | DeferCreateMessage bool
  | ClientDo Request
  | CreateFollowupMessage MessageCreate
  | Log log_level "log_arg list"

section \<open>The handler\<close>

definition metadataApiURL :: gostring where
  "metadataApiURL = str ''https://api.cloudflare.com/client/v4/accounts/6dccc8a823380a32fe8792904b2cd886/storage/kv/namespaces/b44b93e4cc174443aca099a3763b29ff/metadata/''"

definition valuesApiURL :: gostring where
  "valuesApiURL = str ''https://api.cloudflare.com/client/v4/accounts/6dccc8a823380a32fe8792904b2cd886/storage/kv/namespaces/b44b93e4cc174443aca099a3763b29ff/values/''"

definition http_NewRequest ::
  "'w Runtime \<Rightarrow> http_method \<Rightarrow> gostring \<Rightarrow> (gostring \<times> gostring) list option \<Rightarrow> error + Request" where
  "http_NewRequest rt m u b =
     (case url_Parse rt u of
        Some err \<Rightarrow> Inl err
      | None \<Rightarrow> Inr \<lparr>Method = m, URL = u, Header = [], Body = b\<rparr>)"

definition Header_Add :: "gostring \<Rightarrow> gostring \<Rightarrow> Request \<Rightarrow> Request" where
  "Header_Add k v r = r\<lparr>Header := Header r @ [(k, v)]\<rparr>"

definition FormDataContentType :: "'w Runtime \<Rightarrow> gostring" where
  "FormDataContentType rt = str ''multipart/form-data; boundary='' @ multipart_boundary rt"

definition metadata_json :: "snowflake \<Rightarrow> gostring" where
  \<comment> \<open>\<^verbatim>\<open>fmt.Sprintf(`{"id":"%s"}`, userID)\<close>\<close>
  \<open>metadata_json userID = str ''{"id":"'' @ ID_String userID @ str ''"}''\<close>

definition taken_message :: "snowflake \<Rightarrow> gostring" where
  \<comment> \<open>\<^verbatim>\<open>fmt.Sprintf("This vanity is already taken by <@%d>.", ownerID)\<close>\<close>
  "taken_message ownerID =
     str ''This vanity is already taken by <@'' @ FormatUint (unat ownerID) @ str ''>.''"

definition added_message :: "gostring \<Rightarrow> gostring \<Rightarrow> gostring" where
  \<comment> \<open>the format of line 126; \<^verbatim>\<open>%[2]s\<close> is the second argument again\<close>
  "added_message vanity pubUserID =
     str ''Vanity `'' @ vanity @ str ''` associated with user id [`'' @ pubUserID
       @ str ''`](https://sb.ltn.fi/userid/'' @ pubUserID
       @ str '') has been successfully added.''"

definition createFollowup :: "gostring \<Rightarrow> action" where
  "createFollowup s = CreateFollowupMessage \<lparr>Content = s, Flags = MessageFlagsNone\<rparr>"

definition after :: "action list \<Rightarrow> action list \<times> 'w \<Rightarrow> action list \<times> 'w" where
  "after pre r = (pre @ fst r, snd r)"

text \<open>Lines 107 to 129: build the multipart body, send the value request, report.\<close>

definition write_value ::
  "'w Runtime \<Rightarrow> gostring \<Rightarrow> gostring \<Rightarrow> snowflake \<Rightarrow> 'w \<Rightarrow> action list \<times> 'w" where
  "write_value rt vanity pubUserID userID w =
     (let buf = [(str ''value'', pubUserID), (str ''metadata'', metadata_json userID)] in
      case http_NewRequest rt MethodPut (valuesApiURL @ vanity) (Some buf) of
        Inl err \<Rightarrow>
          ([Log LevelError
              [ArgString (str ''there was an error while creating a new value request: ''),
               ArgError err]], w)
      | Inr req \<Rightarrow>
          (let valueRequest =
                 Header_Add (str ''Content-Type'') (FormDataContentType rt)
                   (Header_Add (str ''Authorization'') (cfApiToken rt) req)
           in case client_Do rt valueRequest w of
                (Inl err, w') \<Rightarrow>
                  ([ClientDo valueRequest,
                    Log LevelError
                      [ArgString (str ''there was an error while running a value request: ''),
                       ArgError err]], w')
              | (Inr valueRs, w') \<Rightarrow>
                  (let code = StatusCode valueRs in
                   if code = 200 then
                     ([ClientDo valueRequest,
                       createFollowup (added_message vanity pubUserID)], w')
                   else
                     ([ClientDo valueRequest,
                       Log LevelWarn
                         [ArgString (str ''received code %d after running a value request''),
                          ArgInt code]], w'))))"

text \<open>Lines 61 to 106, continuing into \<open>write_value\<close>.\<close>

definition onCommand :: "'w Runtime \<Rightarrow> Interaction \<Rightarrow> 'w \<Rightarrow> action list \<times> 'w" where
  "onCommand rt event w =
     (let pubUserID = option_sb_user_id event in
      if \<not> MatchString publicIDRegex pubUserID then
        ([CreateMessage
            \<lparr>Content = str ''Provided user id is not a valid public user id.'',
             Flags = MessageFlagEphemeral\<rparr>], w)
      else
        (let vanity = strings_ToLower (unicode_tables rt) (option_vanity event) in
         if \<not> MatchString vanityRegex vanity then
           ([CreateMessage
               \<lparr>Content = str ''Provided vanity is not in a valid format. Use letters and numbers only up to 32 characters.'',
                Flags = MessageFlagEphemeral\<rparr>], w)
         else
           after [DeferCreateMessage True]
             (case http_NewRequest rt MethodGet (metadataApiURL @ vanity) None of
                Inl err \<Rightarrow>
                  ([Log LevelError
                      [ArgString (str ''there was an error while creating a new metadata request: ''),
                       ArgError err]], w)
              | Inr req \<Rightarrow>
                  (let metaRequest = Header_Add (str ''Authorization'') (cfApiToken rt) req in
                   after [ClientDo metaRequest]
                     (case client_Do rt metaRequest w of
                        (Inl err, w1) \<Rightarrow>
                          ([Log LevelError
                              [ArgString (str ''there was an error while running a metadata request: ''),
                               ArgError err]], w1)
                      | (Inr metaRs, w1) \<Rightarrow>
                          (let userID = User_ID event in
                           if StatusCode metaRs = 200 then
                             (case Decode metaRs of
                                Inl err \<Rightarrow>
                                  ([Log LevelError
                                      [ArgString (str ''there was an error while decoding the metadata response (%d): ''),
                                       ArgInt (StatusCode metaRs), ArgError err]], w1)
                              | Inr response \<Rightarrow>
                                  (let ownerID = ID (Result response) in
                                   if ownerID \<noteq> userID then
                                     ([createFollowup (taken_message ownerID)], w1)
                                   else write_value rt vanity pubUserID userID w1))
                           else write_value rt vanity pubUserID userID w1))))))"

section \<open>Observing a run\<close>

text \<open>
  The three network-involving steps of an invocation, read off the recorded actions:
  the deferred acknowledgment, the \<^verbatim>\<open>GET\<close> of the metadata and the \<^verbatim>\<open>PUT\<close> of the
  value. Messages and log calls are not steps.
\<close>

datatype step = Acknowledge | MetadataRead | ValueWrite

fun step_of :: "action \<Rightarrow> step option" where
  "step_of (DeferCreateMessage _) = Some Acknowledge"
| "step_of (ClientDo req) =
     (case Method req of MethodGet \<Rightarrow> Some MetadataRead | MethodPut \<Rightarrow> Some ValueWrite)"
| "step_of _ = None"

definition network_steps :: "action list \<Rightarrow> step list" where
  "network_steps t = List.map_filter step_of t"

fun is_user_message :: "action \<Rightarrow> bool" where
  "is_user_message (CreateMessage _) = True"
| "is_user_message (CreateFollowupMessage _) = True"
| "is_user_message _ = False"

fun is_log :: "action \<Rightarrow> bool" where
  "is_log (Log _ _) = True"
| "is_log _ = False"

definition user_id_rejection :: action where
  "user_id_rejection =
     CreateMessage \<lparr>Content = str ''Provided user id is not a valid public user id.'',
                    Flags = MessageFlagEphemeral\<rparr>"

definition vanity_rejection :: action where
  "vanity_rejection =
     CreateMessage
       \<lparr>Content = str ''Provided vanity is not in a valid format. Use letters and numbers only up to 32 characters.'',
        Flags = MessageFlagEphemeral\<rparr>"

text \<open>The requests of lines 80 to 85 and 107 to 118, as the handler sends them.\<close>

definition metaRequest_of :: "'w Runtime \<Rightarrow> gostring \<Rightarrow> Request" where
  "metaRequest_of rt key =
     \<lparr>Method = MethodGet, URL = metadataApiURL @ key,
      Header = [(str ''Authorization'', cfApiToken rt)], Body = None\<rparr>"

definition valueRequest_of :: "'w Runtime \<Rightarrow> gostring \<Rightarrow> gostring \<Rightarrow> snowflake \<Rightarrow> Request" where
  "valueRequest_of rt key pubUserID userID =
     \<lparr>Method = MethodPut, URL = valuesApiURL @ key,
      Header = [(str ''Authorization'', cfApiToken rt),
                (str ''Content-Type'', FormDataContentType rt)],
      Body = Some [(str ''value'', pubUserID), (str ''metadata'', metadata_json userID)]\<rparr>"

text \<open>The branch an invocation took, read off its actions.\<close>

datatype branch = Rejected | Conflict | Write | Abandon

definition branch_of :: "action list \<Rightarrow> branch" where
  "branch_of t =
     (if ValueWrite \<in> set (network_steps t) then Write
      else if list_ex (\<lambda>a. case a of CreateFollowupMessage _ \<Rightarrow> True | _ \<Rightarrow> False) t then Conflict
      else if list_ex (\<lambda>a. case a of CreateMessage _ \<Rightarrow> True | _ \<Rightarrow> False) t then Rejected
      else Abandon)"

text \<open>
  Two alias inputs differ only in letter case: same length, and at each position the
  same rune or the two cases of one ASCII letter.
\<close>

definition same_letter :: "rune \<Rightarrow> rune \<Rightarrow> bool" where
  "same_letter c d =
     (c = d \<or> (isUpperASCII c \<and> d = c + 32) \<or> (isUpperASCII d \<and> c = d + 32))"

definition differ_only_in_case :: "gostring \<Rightarrow> gostring \<Rightarrow> bool" where
  "differ_only_in_case a b = list_all2 same_letter a b"

section \<open>Two concrete worlds\<close>

subsection \<open>A scripted client\<close>

text \<open>
  The world is the list of the outcomes still to come; each request consumes one.
\<close>

definition scripted_Do :: "Request \<Rightarrow> (error + Response) list \<Rightarrow> (error + Response) \<times> (error + Response) list" where
  "scripted_Do req w =
     (case w of [] \<Rightarrow> (Inl (str ''EOF''), []) | r # rs \<Rightarrow> (r, rs))"

definition scripted_runtime :: "(error + Response) list Runtime" where
  "scripted_runtime =
     \<lparr>cfApiToken = str ''token'', unicode_tables = (\<lambda>r. r), url_Parse = (\<lambda>u. None),
      multipart_boundary = str ''b0'', client_Do = scripted_Do\<rparr>"

definition status_only :: "int \<Rightarrow> error + Response" where
  "status_only c = Inr \<lparr>StatusCode = c, Decode = Inl (str ''EOF'')\<rparr>"

definition owned_by :: "snowflake \<Rightarrow> error + Response" where
  "owned_by i = Inr \<lparr>StatusCode = 200, Decode = Inr \<lparr>Result = \<lparr>ID = i\<rparr>\<rparr>\<rparr>"

subsection \<open>The key-value store\<close>

text \<open>
  The store of the two endpoints, as far as the handler uses it: a \<^verbatim>\<open>PUT\<close> on the values
  endpoint overwrites the record of the key with the \<^verbatim>\<open>value\<close> and \<^verbatim>\<open>metadata\<close> fields
  of the form and answers 200; a \<^verbatim>\<open>GET\<close> on the metadata endpoint answers 404 for a key
  without record and otherwise 200 with the stored metadata as \<^verbatim>\<open>result\<close>. Decoding
  that body into \<^verbatim>\<open>MetadataResponse\<close> unquotes the \<^verbatim>\<open>id\<close> string and parses it with
  \<^verbatim>\<open>strconv.ParseUint(s, 10, 64)\<close>. The store is an external service, not code of the
  repository: this is the interface the handler relies on, used below to state what a
  run leaves in the store.
\<close>

record AliasRecord =
  rec_value :: gostring
  rec_metadata :: gostring

type_synonym kv_store = "gostring \<rightharpoonup> AliasRecord"

definition isDigit :: "rune \<Rightarrow> bool" where
  "isDigit c = (of_char CHR ''0'' \<le> c \<and> c \<le> of_char CHR ''9'')"

definition ParseUint :: "gostring \<Rightarrow> nat option" where
  "ParseUint s =
     (if s = [] \<or> \<not> list_all isDigit s then None
      else (let n = foldl (\<lambda>a c. 10 * a + (c - of_char CHR ''0'')) 0 s
            in if n < 2 ^ 64 then Some n else None))"

definition decode_metadata :: "gostring \<Rightarrow> error + MetadataResponse" where
  \<open>decode_metadata m =
     (let pre = str ''{"id":"''; suf = str ''"}''; n = length m - length pre - length suf in
      if length pre + length suf \<le> length m \<and> take (length pre) m = pre
           \<and> drop (length pre + n) m = suf
      then (case ParseUint (take n (drop (length pre) m)) of
              None \<Rightarrow> Inl (str ''failed to parse snowflake'')
            | Some i \<Rightarrow> Inr \<lparr>Result = \<lparr>ID = word_of_nat i\<rparr>\<rparr>)
      else Inl (str ''failed to decode metadata''))\<close>

definition key_of :: "gostring \<Rightarrow> gostring \<Rightarrow> gostring option" where
  "key_of base u =
     (if take (length base) u = base then Some (drop (length base) u) else None)"

definition kv_Do :: "Request \<Rightarrow> kv_store \<Rightarrow> (error + Response) \<times> kv_store" where
  "kv_Do req s =
     (case Method req of
        MethodGet \<Rightarrow>
          (case key_of metadataApiURL (URL req) of
             None \<Rightarrow> (Inl (str ''no route''), s)
           | Some k \<Rightarrow>
               (case s k of
                  None \<Rightarrow> (Inr \<lparr>StatusCode = 404, Decode = Inr \<lparr>Result = \<lparr>ID = 0\<rparr>\<rparr>\<rparr>, s)
                | Some r \<Rightarrow> (Inr \<lparr>StatusCode = 200, Decode = decode_metadata (rec_metadata r)\<rparr>, s)))
      | MethodPut \<Rightarrow>
          (case (key_of valuesApiURL (URL req), Body req) of
             (Some k, Some form) \<Rightarrow>
               (case (map_of form (str ''value''), map_of form (str ''metadata'')) of
                  (Some v, Some m) \<Rightarrow>
                    (Inr \<lparr>StatusCode = 200, Decode = Inl (str ''EOF'')\<rparr>,
                     s(k \<mapsto> \<lparr>rec_value = v, rec_metadata = m\<rparr>))
                | _ \<Rightarrow> (Inr \<lparr>StatusCode = 400, Decode = Inl (str ''EOF'')\<rparr>, s))
           | _ \<Rightarrow> (Inl (str ''no route''), s)))"

definition kv_runtime :: "kv_store Runtime" where
  "kv_runtime =
     \<lparr>cfApiToken = str ''token'', unicode_tables = (\<lambda>r. r), url_Parse = (\<lambda>u. None),
      multipart_boundary = str ''b0'', client_Do = kv_Do\<rparr>"

subsection \<open>Concrete invocations\<close>

definition claim_event :: "string \<Rightarrow> string \<Rightarrow> snowflake \<Rightarrow> Interaction" where
  "claim_event p a u = \<lparr>option_sb_user_id = str p, option_vanity = str a, User_ID = u\<rparr>"

section \<open>Basic facts about the handler\<close>

lemma in_class_publicID:
  "in_class [(CHR ''a'', CHR ''f''), (CHR ''0'', CHR ''9'')]
     = in_class [(CHR ''0'', CHR ''9''), (CHR ''a'', CHR ''f'')]"
  by (rule ext) (auto simp: in_class_def)

lemma publicIDRegex_spec:
  "MatchString publicIDRegex s = MatchString spec_requesterID_pattern s"
  by (simp add: publicIDRegex_def spec_requesterID_pattern_def in_class_publicID)

lemma metaRequest_built:
  "Header_Add (str ''Authorization'') (cfApiToken rt)
     \<lparr>Method = MethodGet, URL = metadataApiURL @ k, Header = [], Body = None\<rparr>
   = metaRequest_of rt k"
  by (simp add: Header_Add_def metaRequest_of_def)

lemma valueRequest_built:
  "Header_Add (str ''Content-Type'') (FormDataContentType rt)
     (Header_Add (str ''Authorization'') (cfApiToken rt)
        \<lparr>Method = MethodPut, URL = valuesApiURL @ k, Header = [],
         Body = Some [(str ''value'', p), (str ''metadata'', metadata_json u)]\<rparr>)
   = valueRequest_of rt k p u"
  by (simp add: Header_Add_def valueRequest_of_def)

lemma onCommand_bad_id:
  "\<not> MatchString publicIDRegex (option_sb_user_id ev) \<Longrightarrow>
     onCommand rt ev w = ([user_id_rejection], w)"
  by (simp add: onCommand_def user_id_rejection_def)

lemma onCommand_bad_vanity:
  "MatchString publicIDRegex (option_sb_user_id ev) \<Longrightarrow>
   \<not> MatchString vanityRegex (strings_ToLower (unicode_tables rt) (option_vanity ev)) \<Longrightarrow>
     onCommand rt ev w = ([vanity_rejection], w)"
  by (simp add: onCommand_def vanity_rejection_def Let_def)

lemma write_value_new_request_error:
  "url_Parse rt (valuesApiURL @ v) = Some e \<Longrightarrow>
     write_value rt v p u w =
       ([Log LevelError
           [ArgString (str ''there was an error while creating a new value request: ''),
            ArgError e]], w)"
  by (simp add: write_value_def http_NewRequest_def)

lemma write_value_sent:
  "url_Parse rt (valuesApiURL @ v) = None \<Longrightarrow>
     write_value rt v p u w =
       (case client_Do rt (valueRequest_of rt v p u) w of
          (Inl e, w') \<Rightarrow>
            ([ClientDo (valueRequest_of rt v p u),
              Log LevelError
                [ArgString (str ''there was an error while running a value request: ''),
                 ArgError e]], w')
        | (Inr rs, w') \<Rightarrow>
            (if StatusCode rs = 200 then
               ([ClientDo (valueRequest_of rt v p u), createFollowup (added_message v p)], w')
             else
               ([ClientDo (valueRequest_of rt v p u),
                 Log LevelWarn
                   [ArgString (str ''received code %d after running a value request''),
                    ArgInt (StatusCode rs)]], w')))"
  by (simp add: write_value_def http_NewRequest_def valueRequest_built Let_def
      split: prod.splits sum.splits)

lemma onCommand_new_request_error:
  "MatchString publicIDRegex (option_sb_user_id ev) \<Longrightarrow>
   MatchString vanityRegex (strings_ToLower (unicode_tables rt) (option_vanity ev)) \<Longrightarrow>
   url_Parse rt (metadataApiURL @ strings_ToLower (unicode_tables rt) (option_vanity ev)) = Some e \<Longrightarrow>
     onCommand rt ev w =
       ([DeferCreateMessage True,
         Log LevelError
           [ArgString (str ''there was an error while creating a new metadata request: ''),
            ArgError e]], w)"
  by (simp add: onCommand_def http_NewRequest_def after_def Let_def)

lemma onCommand_sent:
  "MatchString publicIDRegex (option_sb_user_id ev) \<Longrightarrow>
   MatchString vanityRegex v \<Longrightarrow>
   v = strings_ToLower (unicode_tables rt) (option_vanity ev) \<Longrightarrow>
   url_Parse rt (metadataApiURL @ v) = None \<Longrightarrow>
     onCommand rt ev w =
       after [DeferCreateMessage True, ClientDo (metaRequest_of rt v)]
         (case client_Do rt (metaRequest_of rt v) w of
            (Inl e, w1) \<Rightarrow>
              ([Log LevelError
                  [ArgString (str ''there was an error while running a metadata request: ''),
                   ArgError e]], w1)
          | (Inr rs, w1) \<Rightarrow>
              (if StatusCode rs = 200 then
                 (case Decode rs of
                    Inl e \<Rightarrow>
                      ([Log LevelError
                          [ArgString (str ''there was an error while decoding the metadata response (%d): ''),
                           ArgInt (StatusCode rs), ArgError e]], w1)
                  | Inr r \<Rightarrow>
                      (if ID (Result r) \<noteq> User_ID ev then
                         ([createFollowup (taken_message (ID (Result r)))], w1)
                       else write_value rt v (option_sb_user_id ev) (User_ID ev) w1))
               else write_value rt v (option_sb_user_id ev) (User_ID ev) w1))"
  by (simp add: onCommand_def http_NewRequest_def metaRequest_built after_def Let_def
      split: prod.splits sum.splits)

lemma followups_differ: "added_message v p \<noteq> taken_message i"
  by (simp add: added_message_def taken_message_def str_def)

lemma requests_differ [simp]:
  "metaRequest_of rt k \<noteq> valueRequest_of rt k' p u"
  "valueRequest_of rt k' p u \<noteq> metaRequest_of rt k"
  by (simp_all add: metaRequest_of_def valueRequest_of_def)

lemma Method_requests [simp]:
  "Method (metaRequest_of rt k) = MethodGet"
  "Method (valueRequest_of rt k p u) = MethodPut"
  by (simp_all add: metaRequest_of_def valueRequest_of_def)

lemma step_of_createFollowup [simp]: "step_of (createFollowup s) = None"
  by (simp add: createFollowup_def)

lemma write_value_shapes:
  "(\<exists>a. write_value rt v p u w = ([a], w) \<and> step_of a = None)
   \<or> (\<exists>a. write_value rt v p u w =
            ([ClientDo (valueRequest_of rt v p u), a],
             snd (client_Do rt (valueRequest_of rt v p u) w))
          \<and> step_of a = None)"
proof (cases "url_Parse rt (valuesApiURL @ v)")
  case (Some e)
  then show ?thesis by (simp add: write_value_new_request_error)
next
  case None
  then show ?thesis
    by (auto simp: write_value_sent split: prod.splits sum.splits)
qed

lemma onCommand_shapes:
  assumes "v = strings_ToLower (unicode_tables rt) (option_vanity ev)"
      and "mreq = metaRequest_of rt v"
      and "vreq = valueRequest_of rt v (option_sb_user_id ev) (User_ID ev)"
      and "w1 = snd (client_Do rt mreq w)"
  shows "(\<exists>m. onCommand rt ev w = ([CreateMessage m], w))
       \<or> MatchString publicIDRegex (option_sb_user_id ev) \<and> MatchString vanityRegex v
         \<and> ((\<exists>a. onCommand rt ev w = ([DeferCreateMessage True, a], w) \<and> step_of a = None)
            \<or> (\<exists>a. onCommand rt ev w = ([DeferCreateMessage True, ClientDo mreq, a], w1)
                   \<and> step_of a = None)
            \<or> (\<exists>a. onCommand rt ev w =
                     ([DeferCreateMessage True, ClientDo mreq, ClientDo vreq, a],
                      snd (client_Do rt vreq w1))
                   \<and> step_of a = None))"
proof (cases "MatchString publicIDRegex (option_sb_user_id ev)")
  case False
  then show ?thesis by (simp add: onCommand_bad_id user_id_rejection_def)
next
  case pub: True
  show ?thesis
  proof (cases "MatchString vanityRegex v")
    case False
    with pub assms(1) show ?thesis by (simp add: onCommand_bad_vanity vanity_rejection_def)
  next
    case van: True
    show ?thesis
    proof (cases "url_Parse rt (metadataApiURL @ v)")
      case (Some e)
      with pub van assms(1) show ?thesis by (simp add: onCommand_new_request_error)
    next
      case None
      note sent = onCommand_sent [OF pub van assms(1) None, of w]
      show ?thesis
        using write_value_shapes [of rt v "option_sb_user_id ev" "User_ID ev" w1] assms(2-4)
          pub van
        by (auto simp: sent after_def split: prod.splits sum.splits)
    qed
  qed
qed

lemma onCommand_requests:
  assumes "ClientDo req \<in> set (fst (onCommand rt ev w))"
  shows "req = metaRequest_of rt (strings_ToLower (unicode_tables rt) (option_vanity ev))
       \<or> req = valueRequest_of rt (strings_ToLower (unicode_tables rt) (option_vanity ev))
                 (option_sb_user_id ev) (User_ID ev)"
  using assms onCommand_shapes [OF refl refl refl refl, of rt ev w]
  by (auto split: http_method.splits)

lemma branch_of_write_value:
  "branch_of ([DeferCreateMessage True, ClientDo (metaRequest_of rt v)]
               @ fst (write_value rt v p u w1)) =
     (case url_Parse rt (valuesApiURL @ v) of Some e \<Rightarrow> Abandon | None \<Rightarrow> Write)"
proof (cases "url_Parse rt (valuesApiURL @ v)")
  case (Some e)
  then show ?thesis
    by (simp add: write_value_new_request_error branch_of_def network_steps_def
        List.map_filter_simps)
next
  case None
  then show ?thesis
    by (auto simp: write_value_sent branch_of_def network_steps_def List.map_filter_simps
        split: prod.splits sum.splits)
qed

lemma branch_of_onCommand:
  assumes "MatchString publicIDRegex (option_sb_user_id ev)"
      and "v = strings_ToLower (unicode_tables rt) (option_vanity ev)"
  shows "branch_of (fst (onCommand rt ev w)) =
     (if \<not> MatchString vanityRegex v then Rejected
      else case url_Parse rt (metadataApiURL @ v) of
        Some e \<Rightarrow> Abandon
      | None \<Rightarrow>
          (case fst (client_Do rt (metaRequest_of rt v) w) of
             Inl e \<Rightarrow> Abandon
           | Inr rs \<Rightarrow>
               if StatusCode rs = 200 \<and> (\<exists>e. Decode rs = Inl e) then Abandon
               else if StatusCode rs = 200 \<and> (\<exists>r. Decode rs = Inr r \<and> ID (Result r) \<noteq> User_ID ev)
               then Conflict
               else (case url_Parse rt (valuesApiURL @ v) of
                       Some e \<Rightarrow> Abandon | None \<Rightarrow> Write)))"
proof (cases "MatchString vanityRegex v")
  case False
  with assms show ?thesis
    by (simp add: onCommand_bad_vanity vanity_rejection_def branch_of_def network_steps_def
        List.map_filter_simps)
next
  case van: True
  show ?thesis
  proof (cases "url_Parse rt (metadataApiURL @ v)")
    case (Some e)
    with assms van show ?thesis
      by (simp add: onCommand_new_request_error branch_of_def network_steps_def
          List.map_filter_simps)
  next
    case None
    note sent = onCommand_sent [OF assms(1) van assms(2) None, of w]
    note bw = branch_of_write_value [of rt v "option_sb_user_id ev" "User_ID ev", simplified]
    show ?thesis
    proof (cases "client_Do rt (metaRequest_of rt v) w")
      case (Pair res w1)
      show ?thesis
      proof (cases res)
        case (Inl e)
        with Pair van None show ?thesis
          by (simp add: sent after_def branch_of_def network_steps_def List.map_filter_simps)
      next
        case (Inr rs)
        show ?thesis
        proof (cases "StatusCode rs = 200")
          case False
          with Pair Inr van None show ?thesis
            by (simp add: sent after_def bw)
        next
          case True
          show ?thesis
          proof (cases "Decode rs")
            case (Inl e)
            with Pair Inr True van None show ?thesis
              by (simp add: sent after_def branch_of_def network_steps_def
                  List.map_filter_simps)
          next
            case r: (Inr r)
            show ?thesis
            proof (cases "ID (Result r) = User_ID ev")
              case True
              with Pair Inr \<open>StatusCode rs = 200\<close> r van None show ?thesis
                by (simp add: sent after_def bw)
            next
              case False
              with Pair Inr \<open>StatusCode rs = 200\<close> r van None show ?thesis
                by (simp add: sent after_def branch_of_def network_steps_def
                    List.map_filter_simps createFollowup_def)
            qed
          qed
        qed
      qed
    qed
  qed
qed

lemma unicode_ToLower_same_letter:
  "same_letter c d \<Longrightarrow> unicode_ToLower tbl c = unicode_ToLower tbl d"
  by (auto simp: same_letter_def unicode_ToLower_def isUpperASCII_def)

lemma strings_ToLower_map:
  "strings_ToLower tbl s = map (unicode_ToLower tbl) s"
proof (cases "list_all (\<lambda>c. c < 128) s")
  case False
  then show ?thesis by (simp add: strings_ToLower_def)
next
  case True
  then have low: "\<And>c. c \<in> set s \<Longrightarrow> c \<le> 127"
    by (auto simp: list_all_iff)
  show ?thesis
  proof (cases "list_ex isUpperASCII s")
    case True
    with \<open>list_all (\<lambda>c. c < 128) s\<close> show ?thesis
      by (simp add: strings_ToLower_def unicode_ToLower_def low)
  next
    case False
    then have "map (unicode_ToLower tbl) s = s"
      by (intro map_idI) (simp add: unicode_ToLower_def low list_ex_iff)
    with False \<open>list_all (\<lambda>c. c < 128) s\<close> show ?thesis
      by (simp add: strings_ToLower_def)
  qed
qed

lemma strings_ToLower_differ_only_in_case:
  "differ_only_in_case a b \<Longrightarrow> strings_ToLower tbl a = strings_ToLower tbl b"
  unfolding differ_only_in_case_def strings_ToLower_map
  by (induction a b rule: list_all2_induct) (simp_all add: unicode_ToLower_same_letter)

lemma onCommand_vanity_cong:
  "strings_ToLower (unicode_tables rt) a = strings_ToLower (unicode_tables rt) b \<Longrightarrow>
     onCommand rt (ev\<lparr>option_vanity := a\<rparr>) w = onCommand rt (ev\<lparr>option_vanity := b\<rparr>) w"
  by (simp add: onCommand_def Let_def cong: sum.case_cong prod.case_cong if_cong)

lemma FormatUint_not_Nil: "FormatUint n \<noteq> []"
  by (subst FormatUint.simps) simp

lemma FormatUint_digits: "list_all isDigit (FormatUint n)"
proof (induction n rule: FormatUint.induct)
  case (1 n)
  show ?case
  proof (cases "n < 10")
    case True
    then show ?thesis by (subst FormatUint.simps) (simp add: isDigit_def)
  next
    case False
    moreover have "n mod 10 \<le> 9" by arith
    ultimately show ?thesis
      using 1 by (subst FormatUint.simps) (simp add: isDigit_def list_all_iff)
  qed
qed

lemma FormatUint_value:
  "foldl (\<lambda>a c. 10 * a + (c - of_char CHR ''0'')) 0 (FormatUint n) = n"
proof (induction n rule: FormatUint.induct)
  case (1 n)
  show ?case
  proof (cases "n < 10")
    case True
    then show ?thesis by (subst FormatUint.simps) simp
  next
    case False
    with 1 show ?thesis by (subst FormatUint.simps) simp
  qed
qed

lemma ParseUint_FormatUint: "n < 2 ^ 64 \<Longrightarrow> ParseUint (FormatUint n) = Some n"
  by (simp add: ParseUint_def FormatUint_not_Nil FormatUint_digits
      FormatUint_value [simplified] Let_def)

lemma decode_metadata_json:
  "decode_metadata (metadata_json u) = Inr \<lparr>Result = \<lparr>ID = u\<rparr>\<rparr>"
proof -
  have "unat u < 2 ^ 64" using unsigned_less [of u] by simp
  then show ?thesis
    by (simp add: decode_metadata_def metadata_json_def ID_String_def str_def Let_def
        ParseUint_FormatUint)
qed

lemma key_of_append [simp]: "key_of base (base @ k) = Some k"
  by (simp add: key_of_def)

lemma kv_Do_metaRequest:
  "kv_Do (metaRequest_of rt k) s =
     (case s k of
        None \<Rightarrow> (Inr \<lparr>StatusCode = 404, Decode = Inr \<lparr>Result = \<lparr>ID = 0\<rparr>\<rparr>\<rparr>, s)
      | Some r \<Rightarrow> (Inr \<lparr>StatusCode = 200, Decode = decode_metadata (rec_metadata r)\<rparr>, s))"
  by (simp add: kv_Do_def metaRequest_of_def)

lemma kv_Do_valueRequest:
  "kv_Do (valueRequest_of rt k p u) s =
     (Inr \<lparr>StatusCode = 200, Decode = Inl (str ''EOF'')\<rparr>,
      s(k \<mapsto> \<lparr>rec_value = p, rec_metadata = metadata_json u\<rparr>))"
  by (simp add: kv_Do_def valueRequest_of_def str_def)

lemma kv_own_alias:
  assumes "MatchString publicIDRegex (option_sb_user_id ev)"
      and "v = strings_ToLower (unicode_tables rt) (option_vanity ev)"
      and "MatchString vanityRegex v"
      and "client_Do rt = kv_Do" and "url_Parse rt = (\<lambda>u. None)"
      and "s v = Some r"
      and "decode_metadata (rec_metadata r) = Inr \<lparr>Result = \<lparr>ID = User_ID ev\<rparr>\<rparr>"
  shows "onCommand rt ev s =
           ([DeferCreateMessage True, ClientDo (metaRequest_of rt v),
             ClientDo (valueRequest_of rt v (option_sb_user_id ev) (User_ID ev)),
             createFollowup (added_message v (option_sb_user_id ev))],
            s(v \<mapsto> \<lparr>rec_value = option_sb_user_id ev,
                     rec_metadata = metadata_json (User_ID ev)\<rparr>))"
  using assms
  by (simp add: onCommand_sent [where v = v] write_value_sent after_def
      kv_Do_metaRequest kv_Do_valueRequest)

section \<open>Evaluating concrete runs\<close>

lemmas run_defs =
  onCommand_def write_value_def after_def Let_def http_NewRequest_def Header_Add_def
  metaRequest_of_def valueRequest_of_def FormDataContentType_def createFollowup_def
  publicIDRegex_def vanityRegex_def in_class_def strings_ToLower_def isUpperASCII_def
  claim_event_def str_def

lemmas scripted_defs = scripted_runtime_def scripted_Do_def status_only_def owned_by_def

lemma scripted_run_404_200:
  "onCommand scripted_runtime (claim_event ''deadbeef'' ''abc123'' 123456789)
     [status_only 404, status_only 200] =
     ([DeferCreateMessage True,
       ClientDo (metaRequest_of scripted_runtime (str ''abc123'')),
       ClientDo (valueRequest_of scripted_runtime (str ''abc123'') (str ''deadbeef'') 123456789),
       createFollowup (added_message (str ''abc123'') (str ''deadbeef''))], [])"
  by (simp add: run_defs scripted_defs)

lemma scripted_run_404_500:
  "onCommand scripted_runtime (claim_event ''deadbeef'' ''abc123'' 123456789)
     [status_only 404, status_only 500] =
     ([DeferCreateMessage True,
       ClientDo (metaRequest_of scripted_runtime (str ''abc123'')),
       ClientDo (valueRequest_of scripted_runtime (str ''abc123'') (str ''deadbeef'') 123456789),
       Log LevelWarn [ArgString (str ''received code %d after running a value request''),
                      ArgInt 500]], [])"
  by (simp add: run_defs scripted_defs)

section \<open>Validation of the public user id\<close>

text \<open>
  C7: for every public user id that does not match \<^verbatim>\<open>^[0-9a-f]+$\<close> the handler answers
  with the validation message and does nothing else: no acknowledgment, no metadata
  read, no value write, and the world is untouched. For every public user id that
  matches, this validation passes: the run does not contain that rejection.
\<close>

theorem C7_public_user_id_validation:
  "(\<not> MatchString spec_requesterID_pattern (option_sb_user_id ev) \<longrightarrow>
      onCommand rt ev w = ([user_id_rejection], w)
      \<and> network_steps (fst (onCommand rt ev w)) = [])
   \<and> (MatchString spec_requesterID_pattern (option_sb_user_id ev) \<longrightarrow>
      user_id_rejection \<notin> set (fst (onCommand rt ev w)))"
  apply (simp add: publicIDRegex_spec [symmetric] onCommand_bad_id network_steps_def
      List.map_filter_simps user_id_rejection_def)
  apply (auto simp: onCommand_def write_value_def after_def Let_def createFollowup_def str_def
      split: sum.splits prod.splits if_splits)
  done

theorem C7_public_user_id_validation_witness:
  "\<not> MatchString spec_requesterID_pattern (str ''DEADBEEF'')
   \<and> onCommand scripted_runtime (claim_event ''DEADBEEF'' ''abc123'' 123456789) []
       = ([user_id_rejection], [])
   \<and> MatchString spec_requesterID_pattern (str ''deadbeef'')
   \<and> user_id_rejection \<notin> set (fst (onCommand scripted_runtime
         (claim_event ''deadbeef'' ''abc123'' 123456789) [status_only 404, status_only 200]))"
  using C7_public_user_id_validation
          [of "claim_event ''DEADBEEF'' ''abc123'' 123456789" scripted_runtime "[]"]
        C7_public_user_id_validation
          [of "claim_event ''deadbeef'' ''abc123'' 123456789" scripted_runtime
              "[status_only 404, status_only 200]"]
  by (simp add: claim_event_def spec_requesterID_pattern_def in_class_def str_def)

section \<open>Validation of the alias\<close>

text \<open>
  The handler's pattern bounds the alias from below only; the pattern of the
  specification is the handler's pattern together with the bound of 32 runes.
\<close>

lemma in_class_vanity:
  "in_class [(CHR ''a'', CHR ''z''), (CHR ''A'', CHR ''Z''), (CHR ''0'', CHR ''9'')]
     = in_class [(CHR ''0'', CHR ''9''), (CHR ''a'', CHR ''z''), (CHR ''A'', CHR ''Z'')]"
  by (rule ext) (auto simp: in_class_def)

lemma vanityRegex_spec:
  "MatchString spec_alias_pattern s \<longleftrightarrow> MatchString vanityRegex s \<and> length s \<le> 32"
  by (cases s) (auto simp: vanityRegex_def spec_alias_pattern_def in_class_vanity)

lemma bad_alias_rejected:
  "onCommand scripted_runtime (claim_event ''deadbeef'' ''Bad Alias!'' 123456789) w
     = ([vanity_rejection], w)"
  by (simp add: run_defs scripted_defs vanity_rejection_def)

text \<open>
  C1: validation should accept an alias exactly when, lowercased, it matches
  \<^verbatim>\<open>[0-9a-zA-Z]{1,32}\<close>, and reject every other alias before any network call. The
  handler does not: an alias of 33 letters \<^verbatim>\<open>a\<close> does not match that pattern, yet the
  handler acknowledges, reads the metadata, writes the value and reports success. Its
  own rejection message promises "up to 32 characters".
\<close>

theorem C1_alias_length_unbounded:
  "\<not> MatchString spec_alias_pattern
       (strings_ToLower (unicode_tables scripted_runtime)
          (str ''aaaaaaaaaaaaaaaaaaaaaaaaaaaaaaaaa''))
   \<and> fst (onCommand scripted_runtime
            (claim_event ''deadbeef'' ''aaaaaaaaaaaaaaaaaaaaaaaaaaaaaaaaa'' 123456789)
            [status_only 404, status_only 200]) =
       [DeferCreateMessage True,
        ClientDo (metaRequest_of scripted_runtime (str ''aaaaaaaaaaaaaaaaaaaaaaaaaaaaaaaaa'')),
        ClientDo (valueRequest_of scripted_runtime (str ''aaaaaaaaaaaaaaaaaaaaaaaaaaaaaaaaa'')
                    (str ''deadbeef'') 123456789),
        createFollowup (added_message (str ''aaaaaaaaaaaaaaaaaaaaaaaaaaaaaaaaa'')
                          (str ''deadbeef''))]"
  by (simp add: run_defs scripted_defs spec_alias_pattern_def)

section \<open>The metadata read\<close>

text \<open>
  C2, as stated: every outcome of the metadata read other than a success status or a
  not-found status abandons the attempt without a value write. The handler does
  otherwise for status 500: it goes on to write the value and reports success.
\<close>

theorem C2_status_500_proceeds_to_write:
  "fst (onCommand scripted_runtime (claim_event ''deadbeef'' ''abc123'' 123456789)
          [status_only 500, status_only 200]) =
     [DeferCreateMessage True,
      ClientDo (metaRequest_of scripted_runtime (str ''abc123'')),
      ClientDo (valueRequest_of scripted_runtime (str ''abc123'') (str ''deadbeef'') 123456789),
      createFollowup (added_message (str ''abc123'') (str ''deadbeef''))]"
  by (simp add: run_defs scripted_defs)

text \<open>
  C2, amended: when the metadata request was sent, a transport failure of the read and a
  decode failure of a 200 response body abandon the attempt: the run ends there with one
  error log entry, no value write and no message to the user. A response with any status
  other than 200, not-found or not, is taken as an unclaimed alias: the handler goes on
  to the write step and, the value request once built, issues the value write.
\<close>

theorem C2_resolver_abandons:
  assumes "MatchString publicIDRegex (option_sb_user_id ev)"
      and "v = strings_ToLower (unicode_tables rt) (option_vanity ev)"
      and "MatchString vanityRegex v"
      and "url_Parse rt (metadataApiURL @ v) = None"
      and "client_Do rt (metaRequest_of rt v) w = (res, w1)"
  shows "(\<forall>e. res = Inl e \<longrightarrow>
            onCommand rt ev w =
              ([DeferCreateMessage True, ClientDo (metaRequest_of rt v),
                Log LevelError
                  [ArgString (str ''there was an error while running a metadata request: ''),
                   ArgError e]], w1))
       \<and> (\<forall>rs e. res = Inr rs \<and> StatusCode rs = 200 \<and> Decode rs = Inl e \<longrightarrow>
            onCommand rt ev w =
              ([DeferCreateMessage True, ClientDo (metaRequest_of rt v),
                Log LevelError
                  [ArgString (str ''there was an error while decoding the metadata response (%d): ''),
                   ArgInt 200, ArgError e]], w1))
       \<and> (\<forall>rs. res = Inr rs \<and> StatusCode rs \<noteq> 200
                \<and> url_Parse rt (valuesApiURL @ v) = None \<longrightarrow>
            ClientDo (valueRequest_of rt v (option_sb_user_id ev) (User_ID ev))
              \<in> set (fst (onCommand rt ev w)))"
  using assms
  by (auto simp: onCommand_sent [where v = v] write_value_sent after_def
      split: prod.splits sum.splits)

theorem C2_resolver_abandons_witness:
  "onCommand scripted_runtime (claim_event ''deadbeef'' ''abc123'' 123456789) [] =
     ([DeferCreateMessage True, ClientDo (metaRequest_of scripted_runtime (str ''abc123'')),
       Log LevelError
         [ArgString (str ''there was an error while running a metadata request: ''),
          ArgError (str ''EOF'')]], [])
   \<and> onCommand scripted_runtime (claim_event ''deadbeef'' ''abc123'' 123456789)
        [status_only 200] =
     ([DeferCreateMessage True, ClientDo (metaRequest_of scripted_runtime (str ''abc123'')),
       Log LevelError
         [ArgString (str ''there was an error while decoding the metadata response (%d): ''),
          ArgInt 200, ArgError (str ''EOF'')]], [])
   \<and> ClientDo (valueRequest_of scripted_runtime (str ''abc123'') (str ''deadbeef'') 123456789)
       \<in> set (fst (onCommand scripted_runtime (claim_event ''deadbeef'' ''abc123'' 123456789)
                      [status_only 404, status_only 200]))"
proof -
  let ?ev = "claim_event ''deadbeef'' ''abc123'' 123456789"
  let ?v = "str ''abc123''"
  let ?mreq = "metaRequest_of scripted_runtime ?v"
  have 1: "MatchString publicIDRegex (option_sb_user_id ?ev)"
    by (simp add: claim_event_def publicIDRegex_def in_class_def str_def)
  have 2: "?v = strings_ToLower (unicode_tables scripted_runtime) (option_vanity ?ev)"
    by (simp add: claim_event_def str_def strings_ToLower_def isUpperASCII_def)
  have 3: "MatchString vanityRegex ?v"
    by (simp add: vanityRegex_def in_class_def str_def)
  have 4: "url_Parse scripted_runtime (metadataApiURL @ ?v) = None"
    "url_Parse scripted_runtime (valuesApiURL @ ?v) = None"
    by (simp_all add: scripted_runtime_def)
  have a: "client_Do scripted_runtime ?mreq [] = (Inl (str ''EOF''), [])"
    by (simp add: scripted_defs)
  have b: "client_Do scripted_runtime ?mreq [status_only 200]
             = (Inr \<lparr>StatusCode = 200, Decode = Inl (str ''EOF'')\<rparr>, [])"
    by (simp add: scripted_defs)
  have c: "client_Do scripted_runtime ?mreq [status_only 404, status_only 200]
             = (Inr \<lparr>StatusCode = 404, Decode = Inl (str ''EOF'')\<rparr>, [status_only 200])"
    by (simp add: scripted_defs)
  from C2_resolver_abandons [OF 1 2 3 4(1) a] C2_resolver_abandons [OF 1 2 3 4(1) b]
    C2_resolver_abandons [OF 1 2 3 4(1) c] 4(2)
  show ?thesis by (simp add: claim_event_def)
qed

section \<open>Conflict\<close>

text \<open>
  C3: when the metadata read answers 200 and its body decodes to an owner whose identifier
  differs from the invoking user's, the value write is never issued, and the only message
  to the user is one follow-up saying that the vanity is already taken by that owner.
\<close>

theorem C3_conflict:
  assumes "MatchString publicIDRegex (option_sb_user_id ev)"
      and "v = strings_ToLower (unicode_tables rt) (option_vanity ev)"
      and "MatchString vanityRegex v"
      and "url_Parse rt (metadataApiURL @ v) = None"
      and "client_Do rt (metaRequest_of rt v) w = (Inr rs, w1)"
      and "StatusCode rs = 200"
      and "Decode rs = Inr r"
      and "ID (Result r) \<noteq> User_ID ev"
  shows "ValueWrite \<notin> set (network_steps (fst (onCommand rt ev w)))
       \<and> filter is_user_message (fst (onCommand rt ev w)) =
           [CreateFollowupMessage
              \<lparr>Content = str ''This vanity is already taken by <@''
                           @ FormatUint (unat (ID (Result r))) @ str ''>.'',
               Flags = MessageFlagsNone\<rparr>]
       \<and> onCommand rt ev w =
           ([DeferCreateMessage True, ClientDo (metaRequest_of rt v),
             createFollowup (taken_message (ID (Result r)))], w1)"
  using assms
  by (simp add: onCommand_sent [where v = v] after_def network_steps_def
      List.map_filter_simps metaRequest_of_def createFollowup_def taken_message_def)

theorem C3_conflict_witness:
  "MatchString publicIDRegex (str ''deadbeef'')
   \<and> MatchString vanityRegex (str ''taken1'')
   \<and> (999 :: snowflake) \<noteq> 123456789
   \<and> filter is_user_message
        (fst (onCommand scripted_runtime (claim_event ''deadbeef'' ''taken1'' 123456789)
               [owned_by 999])) =
       [CreateFollowupMessage
          \<lparr>Content = str ''This vanity is already taken by <@999>.'',
           Flags = MessageFlagsNone\<rparr>]
   \<and> ValueWrite \<notin> set (network_steps
        (fst (onCommand scripted_runtime (claim_event ''deadbeef'' ''taken1'' 123456789)
               [owned_by 999])))"
proof -
  let ?ev = "claim_event ''deadbeef'' ''taken1'' 123456789"
  let ?rs = "\<lparr>StatusCode = 200, Decode = Inr \<lparr>Result = \<lparr>ID = 999 :: snowflake\<rparr>\<rparr>\<rparr>"
  have 1: "MatchString publicIDRegex (option_sb_user_id ?ev)"
    by (simp add: claim_event_def publicIDRegex_def in_class_def str_def)
  have 2: "str ''taken1'' = strings_ToLower (unicode_tables scripted_runtime) (option_vanity ?ev)"
    by (simp add: claim_event_def str_def strings_ToLower_def isUpperASCII_def)
  have 3: "MatchString vanityRegex (str ''taken1'')"
    by (simp add: vanityRegex_def in_class_def str_def)
  have 4: "url_Parse scripted_runtime (metadataApiURL @ str ''taken1'') = None"
    by (simp add: scripted_runtime_def)
  have 5: "client_Do scripted_runtime (metaRequest_of scripted_runtime (str ''taken1''))
             [owned_by 999] = (Inr ?rs, [])"
    by (simp add: scripted_runtime_def scripted_Do_def owned_by_def)
  have 6: "ID (Result \<lparr>Result = \<lparr>ID = 999 :: snowflake\<rparr>\<rparr>) \<noteq> User_ID ?ev"
    by (simp add: claim_event_def)
  have 7: "StatusCode ?rs = 200" and 8: "Decode ?rs = Inr \<lparr>Result = \<lparr>ID = 999\<rparr>\<rparr>"
    by simp_all
  note c = C3_conflict [OF 1 2 3 4 5 7 8 6]
  have no_write: "ValueWrite \<notin> set (network_steps
      (fst (onCommand scripted_runtime ?ev [owned_by 999])))"
    using c [THEN conjunct1] .
  have "filter is_user_message (fst (onCommand scripted_runtime ?ev [owned_by 999])) =
         [CreateFollowupMessage
            \<lparr>Content = str ''This vanity is already taken by <@''
                         @ FormatUint (unat (999 :: snowflake)) @ str ''>.'',
             Flags = MessageFlagsNone\<rparr>]"
    using c [THEN conjunct2, THEN conjunct1] by simp
  moreover have "str ''This vanity is already taken by <@''
                  @ FormatUint (unat (999 :: snowflake)) @ str ''>.''
               = str ''This vanity is already taken by <@999>.''"
    by (simp add: str_def FormatUint.simps)
  ultimately show ?thesis using no_write 1 3 by (simp add: claim_event_def)
qed

section \<open>The outcome of the value write\<close>

lemma onCommand_write_outcome:
  assumes "v = strings_ToLower (unicode_tables rt) (option_vanity ev)"
      and "p = option_sb_user_id ev"
      and "u = User_ID ev"
      and "t = fst (onCommand rt ev w)"
      and "w1 = snd (client_Do rt (metaRequest_of rt v) w)"
  shows "(createFollowup (added_message v p) \<in> set t \<longleftrightarrow>
            ClientDo (valueRequest_of rt v p u) \<in> set t
            \<and> (\<exists>rs. fst (client_Do rt (valueRequest_of rt v p u) w1) = Inr rs
                     \<and> StatusCode rs = 200))
       \<and> (\<forall>rs. ClientDo (valueRequest_of rt v p u) \<in> set t
                \<and> fst (client_Do rt (valueRequest_of rt v p u) w1) = Inr rs
                \<and> StatusCode rs = 200 \<longrightarrow>
              t = [DeferCreateMessage True, ClientDo (metaRequest_of rt v),
                   ClientDo (valueRequest_of rt v p u),
                   createFollowup (added_message v p)])
       \<and> (\<forall>rs. ClientDo (valueRequest_of rt v p u) \<in> set t
                \<and> fst (client_Do rt (valueRequest_of rt v p u) w1) = Inr rs
                \<and> StatusCode rs \<noteq> 200 \<longrightarrow>
              t = [DeferCreateMessage True, ClientDo (metaRequest_of rt v),
                   ClientDo (valueRequest_of rt v p u),
                   Log LevelWarn
                     [ArgString (str ''received code %d after running a value request''),
                      ArgInt (StatusCode rs)]])"
proof (cases "MatchString publicIDRegex (option_sb_user_id ev) \<and> MatchString vanityRegex v")
  case False
  then have "t = [user_id_rejection] \<or> t = [vanity_rejection]"
    using assms onCommand_bad_id [of ev rt w] onCommand_bad_vanity [of ev rt w]
    by (cases "MatchString publicIDRegex (option_sb_user_id ev)") auto
  then show ?thesis
    by (auto simp: user_id_rejection_def vanity_rejection_def createFollowup_def)
next
  case True
  show ?thesis
  proof (cases "url_Parse rt (metadataApiURL @ v)")
    case (Some e)
    then show ?thesis
      using True assms onCommand_new_request_error [of ev rt e w]
      by (auto simp: createFollowup_def)
  next
    case None
    note sent = onCommand_sent [where v = v and ev = ev and rt = rt and w = w]
    show ?thesis
    proof (cases "url_Parse rt (valuesApiURL @ v)")
      case (Some e)
      then show ?thesis
        using True None assms followups_differ [of v p]
        by (auto simp: sent after_def write_value_new_request_error createFollowup_def
            split: prod.splits sum.splits if_splits)
    next
      case None2: None
      then show ?thesis
        using True None assms followups_differ [of v p]
        by (auto simp: sent after_def write_value_sent createFollowup_def
            split: prod.splits sum.splits if_splits)
    qed
  qed
qed

text \<open>
  C4, as stated: for every status of the value write other than 200 the failure is
  surfaced to the caller as a generic failure. The handler surfaces nothing: when the
  store answers the value write with 500, the run ends with a warning log entry and not
  one message, of success or of failure, is sent to the user.
\<close>

theorem C4_failure_not_surfaced:
  "fst (onCommand scripted_runtime (claim_event ''deadbeef'' ''abc123'' 123456789)
          [status_only 404, status_only 500]) =
     [DeferCreateMessage True,
      ClientDo (metaRequest_of scripted_runtime (str ''abc123'')),
      ClientDo (valueRequest_of scripted_runtime (str ''abc123'') (str ''deadbeef'') 123456789),
      Log LevelWarn [ArgString (str ''received code %d after running a value request''),
                     ArgInt 500]]
   \<and> filter is_user_message
        (fst (onCommand scripted_runtime (claim_event ''deadbeef'' ''abc123'' 123456789)
                [status_only 404, status_only 500])) = []"
  by (simp add: run_defs scripted_defs)

text \<open>
  C4, amended: the handler reports success to the user, with the follow-up
  \<^verbatim>\<open>Vanity `<alias>` associated with user id [`<id>`](https://sb.ltn.fi/userid/<id>) has been successfully added.\<close>,
  if and only if the value write was sent and the store answered it with status 200; the
  run is then acknowledgment, metadata read, value write and that follow-up. For every
  other status the run ends with one warning log entry carrying that status: the request
  is not sent again and nothing is surfaced to the user, no message of any kind.
\<close>

theorem C4_write_outcome:
  assumes "v = strings_ToLower (unicode_tables rt) (option_vanity ev)"
      and "p = option_sb_user_id ev"
      and "u = User_ID ev"
      and "t = fst (onCommand rt ev w)"
      and "w1 = snd (client_Do rt (metaRequest_of rt v) w)"
  shows "(CreateFollowupMessage
           \<lparr>Content = str ''Vanity `'' @ v @ str ''` associated with user id [`'' @ p
                        @ str ''`](https://sb.ltn.fi/userid/'' @ p
                        @ str '') has been successfully added.'',
            Flags = MessageFlagsNone\<rparr> \<in> set t \<longleftrightarrow>
            ClientDo (valueRequest_of rt v p u) \<in> set t
            \<and> (\<exists>rs. fst (client_Do rt (valueRequest_of rt v p u) w1) = Inr rs
                     \<and> StatusCode rs = 200))
       \<and> (\<forall>rs. ClientDo (valueRequest_of rt v p u) \<in> set t
                \<and> fst (client_Do rt (valueRequest_of rt v p u) w1) = Inr rs
                \<and> StatusCode rs = 200 \<longrightarrow>
              t = [DeferCreateMessage True, ClientDo (metaRequest_of rt v),
                   ClientDo (valueRequest_of rt v p u),
                   CreateFollowupMessage
                   \<lparr>Content = str ''Vanity `'' @ v @ str ''` associated with user id [`'' @ p
                                @ str ''`](https://sb.ltn.fi/userid/'' @ p
                                @ str '') has been successfully added.'',
                    Flags = MessageFlagsNone\<rparr>])
       \<and> (\<forall>rs. ClientDo (valueRequest_of rt v p u) \<in> set t
                \<and> fst (client_Do rt (valueRequest_of rt v p u) w1) = Inr rs
                \<and> StatusCode rs \<noteq> 200 \<longrightarrow>
              t = [DeferCreateMessage True, ClientDo (metaRequest_of rt v),
                   ClientDo (valueRequest_of rt v p u),
                   Log LevelWarn
                     [ArgString (str ''received code %d after running a value request''),
                      ArgInt (StatusCode rs)]]
              \<and> filter is_user_message t = [])"
proof -
  have msg: "createFollowup (added_message v p) =
      CreateFollowupMessage
      \<lparr>Content = str ''Vanity `'' @ v @ str ''` associated with user id [`'' @ p
                   @ str ''`](https://sb.ltn.fi/userid/'' @ p
                   @ str '') has been successfully added.'',
       Flags = MessageFlagsNone\<rparr>"
    by (simp add: createFollowup_def added_message_def)
  note o = onCommand_write_outcome [OF assms]
  show ?thesis
  proof (intro conjI allI impI)
    show "(CreateFollowupMessage
           \<lparr>Content = str ''Vanity `'' @ v @ str ''` associated with user id [`'' @ p
                        @ str ''`](https://sb.ltn.fi/userid/'' @ p
                        @ str '') has been successfully added.'',
            Flags = MessageFlagsNone\<rparr> \<in> set t) =
          (ClientDo (valueRequest_of rt v p u) \<in> set t
            \<and> (\<exists>rs. fst (client_Do rt (valueRequest_of rt v p u) w1) = Inr rs
                     \<and> StatusCode rs = 200))"
      using o [THEN conjunct1] by (simp only: msg)
  next
    fix rs
    assume "ClientDo (valueRequest_of rt v p u) \<in> set t
                \<and> fst (client_Do rt (valueRequest_of rt v p u) w1) = Inr rs
                \<and> StatusCode rs = 200"
    with o [THEN conjunct2, THEN conjunct1]
    have "t = [DeferCreateMessage True, ClientDo (metaRequest_of rt v),
               ClientDo (valueRequest_of rt v p u), createFollowup (added_message v p)]"
      by blast
    then show "t = [DeferCreateMessage True, ClientDo (metaRequest_of rt v),
                   ClientDo (valueRequest_of rt v p u),
                   CreateFollowupMessage
                   \<lparr>Content = str ''Vanity `'' @ v @ str ''` associated with user id [`'' @ p
                                @ str ''`](https://sb.ltn.fi/userid/'' @ p
                                @ str '') has been successfully added.'',
                    Flags = MessageFlagsNone\<rparr>]"
      by (simp only: msg)
  next
    fix rs
    assume "ClientDo (valueRequest_of rt v p u) \<in> set t
                \<and> fst (client_Do rt (valueRequest_of rt v p u) w1) = Inr rs
                \<and> StatusCode rs \<noteq> 200"
    with o [THEN conjunct2, THEN conjunct2]
    have run: "t = [DeferCreateMessage True, ClientDo (metaRequest_of rt v),
                   ClientDo (valueRequest_of rt v p u),
                   Log LevelWarn
                     [ArgString (str ''received code %d after running a value request''),
                      ArgInt (StatusCode rs)]]"
      by blast
    then show "t = [DeferCreateMessage True, ClientDo (metaRequest_of rt v),
                   ClientDo (valueRequest_of rt v p u),
                   Log LevelWarn
                     [ArgString (str ''received code %d after running a value request''),
                      ArgInt (StatusCode rs)]]" .
    from run show "filter is_user_message t = []" by simp
  qed
qed

theorem C4_write_outcome_witness:
  "fst (onCommand scripted_runtime (claim_event ''deadbeef'' ''abc123'' 123456789)
          [status_only 404, status_only 200]) =
     [DeferCreateMessage True,
      ClientDo (metaRequest_of scripted_runtime (str ''abc123'')),
      ClientDo (valueRequest_of scripted_runtime (str ''abc123'') (str ''deadbeef'') 123456789),
      CreateFollowupMessage
        \<lparr>Content = str ''Vanity `abc123` associated with user id [`deadbeef`](https://sb.ltn.fi/userid/deadbeef) has been successfully added.'',
         Flags = MessageFlagsNone\<rparr>]
   \<and> CreateFollowupMessage
        \<lparr>Content = str ''Vanity `abc123` associated with user id [`deadbeef`](https://sb.ltn.fi/userid/deadbeef) has been successfully added.'',
         Flags = MessageFlagsNone\<rparr>
       \<in> set (fst (onCommand scripted_runtime (claim_event ''deadbeef'' ''abc123'' 123456789)
                      [status_only 404, status_only 200]))
   \<and> fst (onCommand scripted_runtime (claim_event ''deadbeef'' ''abc123'' 123456789)
           [status_only 404, status_only 500]) =
       [DeferCreateMessage True,
        ClientDo (metaRequest_of scripted_runtime (str ''abc123'')),
        ClientDo (valueRequest_of scripted_runtime (str ''abc123'') (str ''deadbeef'') 123456789),
        Log LevelWarn [ArgString (str ''received code %d after running a value request''),
                       ArgInt 500]]
   \<and> filter is_user_message
        (fst (onCommand scripted_runtime (claim_event ''deadbeef'' ''abc123'' 123456789)
                [status_only 404, status_only 500])) = []"
proof -
  let ?ev = "claim_event ''deadbeef'' ''abc123'' 123456789"
  let ?v = "str ''abc123''" and ?p = "str ''deadbeef''"
  let ?mreq = "metaRequest_of scripted_runtime ?v"
  let ?vreq = "valueRequest_of scripted_runtime ?v ?p 123456789"
  let ?ok = "[status_only 404, status_only 200]" and ?ko = "[status_only 404, status_only 500]"
  let ?msg = "CreateFollowupMessage
        \<lparr>Content = str ''Vanity `abc123` associated with user id [`deadbeef`](https://sb.ltn.fi/userid/deadbeef) has been successfully added.'',
         Flags = MessageFlagsNone\<rparr>"
  have v: "?v = strings_ToLower (unicode_tables scripted_runtime) (option_vanity ?ev)"
    and p: "?p = option_sb_user_id ?ev" and u: "123456789 = User_ID ?ev"
    by (simp_all add: claim_event_def str_def strings_ToLower_def isUpperASCII_def
        scripted_runtime_def)
  have sent: "ClientDo ?vreq \<in> set (fst (onCommand scripted_runtime ?ev ?ok))"
    "ClientDo ?vreq \<in> set (fst (onCommand scripted_runtime ?ev ?ko))"
    by (simp_all add: run_defs scripted_defs)
  have ok: "fst (client_Do scripted_runtime ?vreq (snd (client_Do scripted_runtime ?mreq ?ok)))
              = Inr \<lparr>StatusCode = 200, Decode = Inl (str ''EOF'')\<rparr>"
    and ko: "fst (client_Do scripted_runtime ?vreq (snd (client_Do scripted_runtime ?mreq ?ko)))
              = Inr \<lparr>StatusCode = 500, Decode = Inl (str ''EOF'')\<rparr>"
    by (simp_all add: scripted_defs)
  have content: "str ''Vanity `'' @ ?v @ str ''` associated with user id [`'' @ ?p
                @ str ''`](https://sb.ltn.fi/userid/'' @ ?p
                @ str '') has been successfully added.''
            = str ''Vanity `abc123` associated with user id [`deadbeef`](https://sb.ltn.fi/userid/deadbeef) has been successfully added.''"
    by (simp add: str_def)
  note a = C4_write_outcome [OF v p u refl refl, of ?ok, unfolded content]
  note b = C4_write_outcome [OF v p u refl refl, of ?ko]
  from a [THEN conjunct2, THEN conjunct1] sent(1) ok
  have 1: "fst (onCommand scripted_runtime ?ev ?ok)
             = [DeferCreateMessage True, ClientDo ?mreq, ClientDo ?vreq, ?msg]"
    by simp
  from a [THEN conjunct1] sent(1) ok
  have 2: "?msg \<in> set (fst (onCommand scripted_runtime ?ev ?ok))"
    by simp
  from b [THEN conjunct2, THEN conjunct2] sent(2) ko
  have 3: "fst (onCommand scripted_runtime ?ev ?ko) =
       [DeferCreateMessage True, ClientDo ?mreq, ClientDo ?vreq,
        Log LevelWarn [ArgString (str ''received code %d after running a value request''),
                       ArgInt 500]]
     \<and> filter is_user_message (fst (onCommand scripted_runtime ?ev ?ko)) = []"
    by simp
  from 1 2 3 show ?thesis by blast
qed

section \<open>Claiming one's own alias again\<close>

text \<open>
  C5: when the metadata read reports an owner equal to the invoking user, the value write
  is still issued, with the user's public id as value and the user's id in the metadata.
  Against the key-value store, such a run leaves the alias mapped to exactly that record,
  and running the same command again from the resulting store performs the same actions
  and leaves the store as it is.
\<close>

theorem C5_reclaim_own_alias:
  "(MatchString publicIDRegex (option_sb_user_id ev)
      \<and> v = strings_ToLower (unicode_tables rt) (option_vanity ev)
      \<and> MatchString vanityRegex v
      \<and> url_Parse rt (metadataApiURL @ v) = None \<and> url_Parse rt (valuesApiURL @ v) = None
      \<and> client_Do rt (metaRequest_of rt v) w = (Inr rs, w1)
      \<and> StatusCode rs = 200 \<and> Decode rs = Inr r \<and> ID (Result r) = User_ID ev
    \<longrightarrow> ClientDo (valueRequest_of rt v (option_sb_user_id ev) (User_ID ev))
          \<in> set (fst (onCommand rt ev w)))
   \<and> (MatchString publicIDRegex (option_sb_user_id ek)
      \<and> k = strings_ToLower (unicode_tables rk) (option_vanity ek)
      \<and> MatchString vanityRegex k
      \<and> client_Do rk = kv_Do \<and> url_Parse rk = (\<lambda>u. None)
      \<and> s k = Some a
      \<and> decode_metadata (rec_metadata a) = Inr \<lparr>Result = \<lparr>ID = User_ID ek\<rparr>\<rparr>
    \<longrightarrow> snd (onCommand rk ek s) =
          s(k \<mapsto> \<lparr>rec_value = option_sb_user_id ek,
                   rec_metadata = metadata_json (User_ID ek)\<rparr>)
        \<and> onCommand rk ek (snd (onCommand rk ek s)) = onCommand rk ek s)"
proof (intro conjI impI)
  assume "MatchString publicIDRegex (option_sb_user_id ev)
      \<and> v = strings_ToLower (unicode_tables rt) (option_vanity ev)
      \<and> MatchString vanityRegex v
      \<and> url_Parse rt (metadataApiURL @ v) = None \<and> url_Parse rt (valuesApiURL @ v) = None
      \<and> client_Do rt (metaRequest_of rt v) w = (Inr rs, w1)
      \<and> StatusCode rs = 200 \<and> Decode rs = Inr r \<and> ID (Result r) = User_ID ev"
  then show "ClientDo (valueRequest_of rt v (option_sb_user_id ev) (User_ID ev))
          \<in> set (fst (onCommand rt ev w))"
    by (auto simp: onCommand_sent [where v = v] write_value_sent after_def
        split: prod.splits sum.splits)
next
  assume h: "MatchString publicIDRegex (option_sb_user_id ek)
      \<and> k = strings_ToLower (unicode_tables rk) (option_vanity ek)
      \<and> MatchString vanityRegex k
      \<and> client_Do rk = kv_Do \<and> url_Parse rk = (\<lambda>u. None)
      \<and> s k = Some a
      \<and> decode_metadata (rec_metadata a) = Inr \<lparr>Result = \<lparr>ID = User_ID ek\<rparr>\<rparr>"
  let ?rec = "\<lparr>rec_value = option_sb_user_id ek, rec_metadata = metadata_json (User_ID ek)\<rparr>"
  from h have pub: "MatchString publicIDRegex (option_sb_user_id ek)"
    and k: "k = strings_ToLower (unicode_tables rk) (option_vanity ek)"
    and van: "MatchString vanityRegex k"
    and kv: "client_Do rk = kv_Do" "url_Parse rk = (\<lambda>u. None)"
    and own: "s k = Some a"
      "decode_metadata (rec_metadata a) = Inr \<lparr>Result = \<lparr>ID = User_ID ek\<rparr>\<rparr>"
    by blast+
  have first: "onCommand rk ek s =
      ([DeferCreateMessage True, ClientDo (metaRequest_of rk k),
        ClientDo (valueRequest_of rk k (option_sb_user_id ek) (User_ID ek)),
        createFollowup (added_message k (option_sb_user_id ek))], s(k \<mapsto> ?rec))"
    by (rule kv_own_alias [where s = s, OF pub k van kv own])
  have again: "onCommand rk ek (s(k \<mapsto> ?rec)) =
      ([DeferCreateMessage True, ClientDo (metaRequest_of rk k),
        ClientDo (valueRequest_of rk k (option_sb_user_id ek) (User_ID ek)),
        createFollowup (added_message k (option_sb_user_id ek))], (s(k \<mapsto> ?rec))(k \<mapsto> ?rec))"
    by (rule kv_own_alias [where s = "s(k \<mapsto> ?rec)" and r = ?rec, OF pub k van kv])
       (simp_all add: decode_metadata_json)
  from first show "snd (onCommand rk ek s) = s(k \<mapsto> ?rec)" by simp
  from first again show "onCommand rk ek (snd (onCommand rk ek s)) = onCommand rk ek s"
    by simp
qed

theorem C5_reclaim_own_alias_witness:
  "ClientDo (valueRequest_of scripted_runtime (str ''abc123'') (str ''deadbeef'') 123456789)
     \<in> set (fst (onCommand scripted_runtime (claim_event ''deadbeef'' ''abc123'' 123456789)
                    [owned_by 123456789, status_only 200]))
   \<and> snd (onCommand kv_runtime (claim_event ''deadbeef'' ''abc123'' 123456789)
            [str ''abc123'' \<mapsto>
               \<lparr>rec_value = str ''cafe'', rec_metadata = metadata_json 123456789\<rparr>])
     = [str ''abc123'' \<mapsto>
          \<lparr>rec_value = str ''deadbeef'', rec_metadata = metadata_json 123456789\<rparr>]
   \<and> onCommand kv_runtime (claim_event ''deadbeef'' ''abc123'' 123456789)
        [str ''abc123'' \<mapsto>
           \<lparr>rec_value = str ''deadbeef'', rec_metadata = metadata_json 123456789\<rparr>]
     = onCommand kv_runtime (claim_event ''deadbeef'' ''abc123'' 123456789)
        [str ''abc123'' \<mapsto>
           \<lparr>rec_value = str ''cafe'', rec_metadata = metadata_json 123456789\<rparr>]"
proof -
  let ?ev = "claim_event ''deadbeef'' ''abc123'' 123456789"
  let ?v = "str ''abc123''"
  let ?old = "\<lparr>rec_value = str ''cafe'', rec_metadata = metadata_json 123456789\<rparr>"
  let ?s = "[?v \<mapsto> ?old]"
  let ?rs = "\<lparr>StatusCode = 200, Decode = Inr \<lparr>Result = \<lparr>ID = 123456789 :: snowflake\<rparr>\<rparr>\<rparr>"
  have pub: "MatchString publicIDRegex (option_sb_user_id ?ev)"
    by (simp add: claim_event_def publicIDRegex_def in_class_def str_def)
  have low: "?v = strings_ToLower (unicode_tables scripted_runtime) (option_vanity ?ev)"
    "?v = strings_ToLower (unicode_tables kv_runtime) (option_vanity ?ev)"
    by (simp_all add: claim_event_def str_def strings_ToLower_def isUpperASCII_def)
  have van: "MatchString vanityRegex ?v"
    by (simp add: vanityRegex_def in_class_def str_def)
  have g: "url_Parse scripted_runtime (metadataApiURL @ ?v) = None"
    "url_Parse scripted_runtime (valuesApiURL @ ?v) = None"
    "client_Do scripted_runtime (metaRequest_of scripted_runtime ?v)
       [owned_by 123456789, status_only 200] = (Inr ?rs, [status_only 200])"
    "StatusCode ?rs = 200" "Decode ?rs = Inr \<lparr>Result = \<lparr>ID = 123456789\<rparr>\<rparr>"
    "ID (Result \<lparr>Result = \<lparr>ID = 123456789 :: snowflake\<rparr>\<rparr>) = User_ID ?ev"
    by (simp_all add: scripted_defs claim_event_def)
  have k: "client_Do kv_runtime = kv_Do" "url_Parse kv_runtime = (\<lambda>u. None)"
    "?s ?v = Some ?old"
    "decode_metadata (rec_metadata ?old) = Inr \<lparr>Result = \<lparr>ID = User_ID ?ev\<rparr>\<rparr>"
    by (simp_all add: kv_runtime_def decode_metadata_json claim_event_def)
  note c = C5_reclaim_own_alias
              [of ?ev ?v scripted_runtime "[owned_by 123456789, status_only 200]" ?rs
                  "[status_only 200]" "\<lparr>Result = \<lparr>ID = 123456789\<rparr>\<rparr>"
                  ?ev ?v kv_runtime ?s ?old]
  from c [THEN conjunct1] pub low(1) van g
  have 1: "ClientDo (valueRequest_of scripted_runtime ?v (option_sb_user_id ?ev) (User_ID ?ev))
          \<in> set (fst (onCommand scripted_runtime ?ev [owned_by 123456789, status_only 200]))"
    by blast
  from c [THEN conjunct2] pub low(2) van k
  have 2: "snd (onCommand kv_runtime ?ev ?s) =
          ?s(?v \<mapsto> \<lparr>rec_value = option_sb_user_id ?ev,
                   rec_metadata = metadata_json (User_ID ?ev)\<rparr>)
        \<and> onCommand kv_runtime ?ev (snd (onCommand kv_runtime ?ev ?s))
            = onCommand kv_runtime ?ev ?s"
    by blast
  have upd: "?s(?v \<mapsto> \<lparr>rec_value = option_sb_user_id ?ev,
                   rec_metadata = metadata_json (User_ID ?ev)\<rparr>)
       = [?v \<mapsto> \<lparr>rec_value = str ''deadbeef'', rec_metadata = metadata_json 123456789\<rparr>]"
    by (simp add: claim_event_def)
  have A: "snd (onCommand kv_runtime ?ev ?s)
       = [?v \<mapsto> \<lparr>rec_value = str ''deadbeef'', rec_metadata = metadata_json 123456789\<rparr>]"
    using 2 [THEN conjunct1] by (simp only: upd)
  have B: "onCommand kv_runtime ?ev
             [?v \<mapsto> \<lparr>rec_value = str ''deadbeef'', rec_metadata = metadata_json 123456789\<rparr>]
         = onCommand kv_runtime ?ev ?s"
    using 2 [THEN conjunct2] by (simp only: A)
  have C: "ClientDo (valueRequest_of scripted_runtime ?v (str ''deadbeef'') 123456789)
          \<in> set (fst (onCommand scripted_runtime ?ev [owned_by 123456789, status_only 200]))"
    using 1 by (simp add: claim_event_def)
  from A B C show ?thesis by blast
qed

section \<open>The body of the value write\<close>

text \<open>
  C6: every value write the handler issues carries a form whose \<^verbatim>\<open>value\<close> field is the
  public user id given to the command and whose \<^verbatim>\<open>metadata\<close> field is the JSON object
  with the single member \<^verbatim>\<open>id\<close>, the decimal text of the invoking user's identifier.
\<close>

theorem C6_value_write_body:
  "ClientDo req \<in> set (fst (onCommand rt ev w)) \<and> Method req = MethodPut \<longrightarrow>
     Body req = Some [(str ''value'', option_sb_user_id ev),
                      (str ''metadata'', metadata_json (User_ID ev))]"
  using onCommand_requests [of req rt ev w]
  by (auto simp: metaRequest_of_def valueRequest_of_def)

theorem C6_value_write_body_witness:
  "ClientDo (valueRequest_of scripted_runtime (str ''abc123'') (str ''deadbeef'') 123456789)
     \<in> set (fst (onCommand scripted_runtime (claim_event ''deadbeef'' ''abc123'' 123456789)
                    [status_only 404, status_only 200]))
   \<and> Method (valueRequest_of scripted_runtime (str ''abc123'') (str ''deadbeef'') 123456789)
       = MethodPut
   \<and> Body (valueRequest_of scripted_runtime (str ''abc123'') (str ''deadbeef'') 123456789)
       = Some [(str ''value'', str ''deadbeef''),
               (str ''metadata'',
                str ''{'' @ [34] @ str ''id'' @ [34] @ str '':'' @ [34] @ str ''123456789''
                  @ [34] @ str ''}'')]"
proof -
  let ?ev = "claim_event ''deadbeef'' ''abc123'' 123456789"
  let ?vreq = "valueRequest_of scripted_runtime (str ''abc123'') (str ''deadbeef'') 123456789"
  have 1: "ClientDo ?vreq \<in> set (fst (onCommand scripted_runtime ?ev
              [status_only 404, status_only 200]))"
    by (simp add: scripted_run_404_200)
  have 2: "Method ?vreq = MethodPut" by simp
  from C6_value_write_body [of ?vreq scripted_runtime ?ev "[status_only 404, status_only 200]"]
    1 2
  have "Body ?vreq = Some [(str ''value'', option_sb_user_id ?ev),
                           (str ''metadata'', metadata_json (User_ID ?ev))]"
    by simp
  moreover have "metadata_json (User_ID ?ev) =
      str ''{'' @ [34] @ str ''id'' @ [34] @ str '':'' @ [34] @ str ''123456789''
        @ [34] @ str ''}''"
    by (simp add: metadata_json_def ID_String_def claim_event_def str_def FormatUint.simps)
  ultimately show ?thesis using 1 2 by (simp add: claim_event_def)
qed

section \<open>The order of the network steps\<close>

text \<open>
  C8: the network steps of one invocation are an initial part of the sequence
  acknowledge, metadata read, value write, each at most once and in that order. The
  acknowledgment is sent only when both validations have succeeded, and a value write is
  performed in the state of the world that the metadata read has returned.
\<close>

theorem C8_step_order:
  "prefix (network_steps (fst (onCommand rt ev w))) [Acknowledge, MetadataRead, ValueWrite]
   \<and> (Acknowledge \<in> set (network_steps (fst (onCommand rt ev w))) \<longrightarrow>
        MatchString publicIDRegex (option_sb_user_id ev)
        \<and> MatchString vanityRegex (strings_ToLower (unicode_tables rt) (option_vanity ev)))
   \<and> (ValueWrite \<in> set (network_steps (fst (onCommand rt ev w))) \<longrightarrow>
        snd (onCommand rt ev w) =
          snd (client_Do rt
                 (valueRequest_of rt (strings_ToLower (unicode_tables rt) (option_vanity ev))
                    (option_sb_user_id ev) (User_ID ev))
                 (snd (client_Do rt
                         (metaRequest_of rt
                            (strings_ToLower (unicode_tables rt) (option_vanity ev))) w))))"
  using onCommand_shapes [OF refl refl refl refl, of rt ev w]
  by (auto simp: network_steps_def List.map_filter_simps)

theorem C8_step_order_witness:
  "network_steps (fst (onCommand scripted_runtime
       (claim_event ''deadbeef'' ''abc123'' 123456789) [status_only 404, status_only 200]))
     = [Acknowledge, MetadataRead, ValueWrite]
   \<and> prefix (network_steps (fst (onCommand scripted_runtime
       (claim_event ''deadbeef'' ''abc123'' 123456789) [status_only 404, status_only 200])))
       [Acknowledge, MetadataRead, ValueWrite]
   \<and> MatchString publicIDRegex (str ''deadbeef'')
   \<and> MatchString vanityRegex (str ''abc123'')
   \<and> snd (onCommand scripted_runtime
       (claim_event ''deadbeef'' ''abc123'' 123456789) [status_only 404, status_only 200]) = []"
proof -
  let ?ev = "claim_event ''deadbeef'' ''abc123'' 123456789"
  let ?w = "[status_only 404, status_only 200]"
  have steps: "network_steps (fst (onCommand scripted_runtime ?ev ?w))
                 = [Acknowledge, MetadataRead, ValueWrite]"
    by (simp add: scripted_run_404_200 network_steps_def List.map_filter_simps)
  then have ack: "Acknowledge \<in> set (network_steps (fst (onCommand scripted_runtime ?ev ?w)))"
    and wr: "ValueWrite \<in> set (network_steps (fst (onCommand scripted_runtime ?ev ?w)))"
    by simp_all
  note c = C8_step_order [of scripted_runtime ?ev ?w]
  have 1: "prefix (network_steps (fst (onCommand scripted_runtime ?ev ?w)))
             [Acknowledge, MetadataRead, ValueWrite]"
    using c [THEN conjunct1] .
  have 2: "MatchString publicIDRegex (option_sb_user_id ?ev)
         \<and> MatchString vanityRegex
             (strings_ToLower (unicode_tables scripted_runtime) (option_vanity ?ev))"
    using c [THEN conjunct2, THEN conjunct1] ack by blast
  have 3: "snd (onCommand scripted_runtime ?ev ?w) =
          snd (client_Do scripted_runtime
                 (valueRequest_of scripted_runtime
                    (strings_ToLower (unicode_tables scripted_runtime) (option_vanity ?ev))
                    (option_sb_user_id ?ev) (User_ID ?ev))
                 (snd (client_Do scripted_runtime
                         (metaRequest_of scripted_runtime
                            (strings_ToLower (unicode_tables scripted_runtime)
                               (option_vanity ?ev))) ?w)))"
    using c [THEN conjunct2, THEN conjunct2] wr by blast
  have low: "strings_ToLower (unicode_tables scripted_runtime) (option_vanity ?ev) = str ''abc123''"
    by (simp add: claim_event_def str_def strings_ToLower_def isUpperASCII_def)
  from 2 have valid: "MatchString publicIDRegex (str ''deadbeef'') \<and> MatchString vanityRegex (str ''abc123'')"
    by (simp add: low) (simp add: claim_event_def)
  from 3 have final: "snd (onCommand scripted_runtime ?ev ?w) = []"
    by (simp add: scripted_defs)
  from steps 1 valid final show ?thesis by blast
qed

section \<open>What the decision depends on\<close>

text \<open>
  C9: two invocations by the same user for the same alias in the same world, which differ
  only in the (valid) public user id, take the same branch: rejected, conflict, write or
  abandon.
\<close>

theorem C9_branch_independent_of_public_id:
  assumes "MatchString publicIDRegex p1" and "MatchString publicIDRegex p2"
  shows "branch_of (fst (onCommand rt (ev\<lparr>option_sb_user_id := p1\<rparr>) w))
       = branch_of (fst (onCommand rt (ev\<lparr>option_sb_user_id := p2\<rparr>) w))"
  using assms
  by (simp add: branch_of_onCommand [OF _ refl] cong: option.case_cong sum.case_cong if_cong)

theorem C9_branch_independent_of_public_id_witness:
  "MatchString publicIDRegex (str ''deadbeef'') \<and> MatchString publicIDRegex (str ''cafe'')
   \<and> branch_of (fst (onCommand scripted_runtime
                       (claim_event ''deadbeef'' ''taken1'' 123456789) [owned_by 999]))
     = branch_of (fst (onCommand scripted_runtime
                       (claim_event ''cafe'' ''taken1'' 123456789) [owned_by 999]))"
proof -
  have 1: "MatchString publicIDRegex (str ''deadbeef'')"
    and 2: "MatchString publicIDRegex (str ''cafe'')"
    by (simp_all add: publicIDRegex_def in_class_def str_def)
  have e1: "(claim_event ''deadbeef'' ''taken1'' 123456789)\<lparr>option_sb_user_id := str ''deadbeef''\<rparr>
              = claim_event ''deadbeef'' ''taken1'' 123456789"
    and e2: "(claim_event ''deadbeef'' ''taken1'' 123456789)\<lparr>option_sb_user_id := str ''cafe''\<rparr>
              = claim_event ''cafe'' ''taken1'' 123456789"
    by (simp_all add: claim_event_def)
  from C9_branch_independent_of_public_id
         [OF 1 2, of scripted_runtime "claim_event ''deadbeef'' ''taken1'' 123456789"
            "[owned_by 999]"]
  have "branch_of (fst (onCommand scripted_runtime
                       (claim_event ''deadbeef'' ''taken1'' 123456789) [owned_by 999]))
     = branch_of (fst (onCommand scripted_runtime
                       (claim_event ''cafe'' ''taken1'' 123456789) [owned_by 999]))"
    by (simp only: e1 e2)
  with 1 2 show ?thesis by blast
qed

section \<open>The alias key\<close>

text \<open>
  C10: every request the handler sends addresses the lowercased alias: the metadata read
  goes to the metadata URL followed by it, the value write to the values URL followed by
  it. Two invocations whose alias inputs differ only in the case of ASCII letters run
  identically, hence address the same record.
\<close>

theorem C10_lowercased_key:
  "(ClientDo req \<in> set (fst (onCommand rt ev w)) \<longrightarrow>
      URL req = (case Method req of MethodGet \<Rightarrow> metadataApiURL | MethodPut \<Rightarrow> valuesApiURL)
                  @ strings_ToLower (unicode_tables rt) (option_vanity ev))
   \<and> (differ_only_in_case a b \<longrightarrow>
      onCommand rt (ev\<lparr>option_vanity := a\<rparr>) w = onCommand rt (ev\<lparr>option_vanity := b\<rparr>) w)"
  using onCommand_requests [of req rt ev w]
    onCommand_vanity_cong [OF strings_ToLower_differ_only_in_case, of a b rt ev w]
  by (auto simp: metaRequest_of_def valueRequest_of_def)

theorem C10_lowercased_key_witness:
  "differ_only_in_case (str ''AbC123'') (str ''abc123'')
   \<and> onCommand scripted_runtime (claim_event ''deadbeef'' ''AbC123'' 123456789)
        [status_only 404, status_only 200]
     = onCommand scripted_runtime (claim_event ''deadbeef'' ''abc123'' 123456789)
        [status_only 404, status_only 200]
   \<and> ClientDo (metaRequest_of scripted_runtime (str ''abc123''))
       \<in> set (fst (onCommand scripted_runtime (claim_event ''deadbeef'' ''AbC123'' 123456789)
                      [status_only 404, status_only 200]))
   \<and> URL (metaRequest_of scripted_runtime (str ''abc123'')) = metadataApiURL @ str ''abc123''"
proof -
  let ?ev = "claim_event ''deadbeef'' ''AbC123'' 123456789"
  let ?w = "[status_only 404, status_only 200]"
  let ?mreq = "metaRequest_of scripted_runtime (str ''abc123'')"
  have d: "differ_only_in_case (str ''AbC123'') (str ''abc123'')"
    by (simp add: differ_only_in_case_def same_letter_def isUpperASCII_def str_def)
  have e1: "?ev\<lparr>option_vanity := str ''AbC123''\<rparr> = ?ev"
    and e2: "?ev\<lparr>option_vanity := str ''abc123''\<rparr> = claim_event ''deadbeef'' ''abc123'' 123456789"
    by (simp_all add: claim_event_def)
  note c = C10_lowercased_key [of ?mreq scripted_runtime ?ev ?w "str ''AbC123''" "str ''abc123''"]
  from c [THEN conjunct2] d
  have same: "onCommand scripted_runtime ?ev ?w
              = onCommand scripted_runtime (claim_event ''deadbeef'' ''abc123'' 123456789) ?w"
    by (simp only: e1 e2)
  have sent: "ClientDo ?mreq \<in> set (fst (onCommand scripted_runtime ?ev ?w))"
    by (simp add: same scripted_run_404_200)
  from c [THEN conjunct1] sent
  have "URL ?mreq = metadataApiURL
          @ strings_ToLower (unicode_tables scripted_runtime) (option_vanity ?ev)"
    by simp
  moreover have "strings_ToLower (unicode_tables scripted_runtime) (option_vanity ?ev)
                   = str ''abc123''"
    by (simp add: claim_event_def str_def strings_ToLower_def isUpperASCII_def)
  ultimately show ?thesis using d same sent by simp
qed

end
